theory Spec2Isabelle
  imports Main "HOL-Library.Word" "HOL-Library.AList"
begin

unbundle bit_operations_syntax

section \<open>Strings\<close>

text \<open>
  Text is modelled as \<^typ>\<open>string\<close>; one \<^typ>\<open>char\<close> stands for one code unit of a
  JavaScript string. The helpers below are the string methods the sources call.
\<close>

text \<open>\<^verbatim>\<open>s.split(sep)\<close> for a one-character separator: the pieces between the
  separators, in order; the empty string splits into one empty piece.\<close>

fun splitOn :: "char \<Rightarrow> string \<Rightarrow> string list" where
  "splitOn sep [] = [[]]"
| "splitOn sep (c # cs) =
     (let r = splitOn sep cs
      in if c = sep then [] # r else (c # hd r) # tl r)"

text \<open>\<^verbatim>\<open>parts.join(sep)\<close>.\<close>

fun joinWith :: "string \<Rightarrow> string list \<Rightarrow> string" where
  "joinWith sep [] = []"
| "joinWith sep [x] = x"
| "joinWith sep (x # y # ys) = x @ sep @ joinWith sep (y # ys)"

section \<open>Version normalisation (core/project-discovery.ts)\<close>

text \<open>The loop \<^verbatim>\<open>while (parts.length < 4) parts.push('0')\<close>.\<close>

function padParts :: "string list \<Rightarrow> string list" where
  "padParts parts = (if length parts < 4 then padParts (parts @ [''0'']) else parts)"
  by pat_completeness auto
termination
  by (relation "measure (\<lambda>parts. 4 - length parts)") auto

declare padParts.simps [simp del]

definition toFourPartVersion :: "string \<Rightarrow> string" where
  "toFourPartVersion version =
     (let parts = splitOn (CHR ''.'') version;
          parts = padParts parts
      in joinWith ''.'' (take 4 parts))"

section \<open>JSON merge patch (utils/merge.ts)\<close>

text \<open>
  A JavaScript value as \<^verbatim>\<open>JSON.parse\<close> produces it, plus \<^verbatim>\<open>undefined\<close>, which reading
  a missing property yields. Numbers are not inspected by the merge, so their type is a
  parameter. An object is the list of its own properties in insertion order. Property
  names are ordinary names: the name \<^verbatim>\<open>__proto__\<close>, which an assignment treats specially,
  and integer-like names, which JavaScript enumerates before the others, are outside the
  model.
\<close>

datatype 'n json =
    JUndefined
  | JNull
  | JBool bool
  | JNum 'n
  | JStr string
  | JArr "'n json list"
  | JObj "(string \<times> 'n json) list"

text \<open>\<^verbatim>\<open>val !== null && typeof val === 'object' && !Array.isArray(val)\<close>\<close>

fun isObject :: "'n json \<Rightarrow> bool" where
  "isObject (JObj props) = True"
| "isObject val = False"

text \<open>\<^verbatim>\<open>result[key]\<close>: the property's value, \<^verbatim>\<open>undefined\<close> when there is none.\<close>

definition getProp :: "(string \<times> 'n json) list \<Rightarrow> string \<Rightarrow> 'n json" where
  "getProp props key = (case map_of props key of Some v \<Rightarrow> v | None \<Rightarrow> JUndefined)"

text \<open>
  \<^verbatim>\<open>jsonMergePatch\<close>, with the loop over \<^verbatim>\<open>Object.entries(patch)\<close> as \<open>mergeEntries\<close>:
  \<^verbatim>\<open>delete result[key]\<close> is \<^const>\<open>AList.delete\<close>, and the assignment
  \<^verbatim>\<open>result[key] = v\<close> is \<^const>\<open>AList.update\<close> (an existing property keeps its place, a
  new one goes last).
\<close>

fun jsonMergePatch :: "'n json \<Rightarrow> 'n json \<Rightarrow> 'n json"
  and mergeEntries :: "(string \<times> 'n json) list \<Rightarrow> (string \<times> 'n json) list \<Rightarrow> (string \<times> 'n json) list"
where
  "jsonMergePatch target (JObj patch) =
     JObj (mergeEntries (case target of JObj props \<Rightarrow> props | _ \<Rightarrow> []) patch)"
| "jsonMergePatch target JUndefined = JUndefined"
| "jsonMergePatch target JNull = JNull"
| "jsonMergePatch target (JBool b) = JBool b"
| "jsonMergePatch target (JNum n) = JNum n"
| "jsonMergePatch target (JStr s) = JStr s"
| "jsonMergePatch target (JArr vs) = JArr vs"
| "mergeEntries result [] = result"
| "mergeEntries result ((key, value) # entries) =
     mergeEntries
       (if value = JNull then AList.delete key result
        else AList.update key (jsonMergePatch (getProp result key) value) result)
       entries"

section \<open>Capabilities (types.ts)\<close>

record CapabilitiesConfig =
  general :: "string list option"
  device :: "string list option"
  restricted :: "string list option"

definition GENERAL_CAPABILITIES :: "string list" where
  "GENERAL_CAPABILITIES =
     [''internetClient'', ''internetClientServer'', ''privateNetworkClientServer'',
      ''allJoyn'', ''codeGeneration'']"

definition DEVICE_CAPABILITIES :: "string list" where
  "DEVICE_CAPABILITIES =
     [''webcam'', ''microphone'', ''location'', ''proximity'', ''bluetooth'',
      ''serialcommunication'', ''usb'', ''humaninterfacedevice'', ''pointOfService'',
      ''lowLevelDevices'', ''gazeInput'', ''radios'']"

definition RESTRICTED_CAPABILITIES :: "string list" where
  "RESTRICTED_CAPABILITIES =
     [''broadFileSystemAccess'', ''allowElevation'', ''appCaptureSettings'',
      ''appDiagnostics'', ''backgroundSpatialPerception'', ''deviceUnlock'',
      ''expandedResources'', ''extendedBackgroundTaskTime'',
      ''extendedExecutionBackgroundAudio'', ''extendedExecutionCritical'',
      ''extendedExecutionUnconstrained'', ''inputForegroundObservation'',
      ''locationHistory'', ''locationSystem'', ''networkingVpnProvider'',
      ''packageManagement'', ''packageQuery'', ''previewStore'', ''systemManagement'',
      ''unvirtualizedResources'', ''userSystemId'']"

definition DEFAULT_CAPABILITIES :: CapabilitiesConfig where
  "DEFAULT_CAPABILITIES =
     \<lparr>general = Some [''internetClient''], device = None, restricted = None\<rparr>"

text \<open>
  One of the three loops of \<^verbatim>\<open>validateCapabilities\<close>: \<open>kind\<close> is the word in the
  message, \<open>valid\<close> the whitelist, \<open>errors\<close> the array being pushed to. The double quote
  is \<open>CHR 0x22\<close>.
\<close>

fun checkEach :: "string \<Rightarrow> string list \<Rightarrow> string list \<Rightarrow> string list \<Rightarrow> string list" where
  "checkEach kind valid errors [] = errors"
| "checkEach kind valid errors (cap # caps) =
     checkEach kind valid
       (if cap \<notin> set valid
        then errors @ [''Invalid '' @ kind @ '' capability: '' @ [CHR 0x22] @ cap @ [CHR 0x22]
                        @ ''. Valid: '' @ joinWith '', '' valid]
        else errors)
       caps"

text \<open>An absent (or null) list is falsy and skipped; an array, even empty, is truthy.\<close>

definition validateCapabilities :: "CapabilitiesConfig \<Rightarrow> string list" where
  "validateCapabilities config =
     (let errors = [];
          errors = (case general config of
                      Some caps \<Rightarrow> checkEach ''general'' GENERAL_CAPABILITIES errors caps
                    | None \<Rightarrow> errors);
          errors = (case device config of
                      Some caps \<Rightarrow> checkEach ''device'' DEVICE_CAPABILITIES errors caps
                    | None \<Rightarrow> errors);
          errors = (case restricted config of
                      Some caps \<Rightarrow> checkEach ''restricted'' RESTRICTED_CAPABILITIES errors caps
                    | None \<Rightarrow> errors)
      in errors)"

text \<open>The tokens a category declares: those of its list, none when the list is absent.\<close>

definition declared :: "string list option \<Rightarrow> string list" where
  "declared caps = (case caps of Some cs \<Rightarrow> cs | None \<Rightarrow> [])"

section \<open>Capability rendering (core/manifest.ts)\<close>

text \<open>One loop of \<^verbatim>\<open>generateCapabilities\<close>: push the element \<open>opening cap closing\<close> for
  every token.\<close>

fun pushEach :: "string \<Rightarrow> string \<Rightarrow> string list \<Rightarrow> string list \<Rightarrow> string list" where
  "pushEach opening closing caps [] = caps"
| "pushEach opening closing caps (cap # rest) =
     pushEach opening closing (caps @ [opening @ cap @ closing]) rest"

definition generateCapabilities :: "CapabilitiesConfig \<Rightarrow> string" where
  "generateCapabilities config =
     (let caps = [];
          caps = caps @ [''    <rescap:Capability Name='' @ [CHR 0x22] @ ''runFullTrust''
                          @ [CHR 0x22] @ '' />''];
          caps = (case general config of
                    Some gs \<Rightarrow> pushEach (''    <Capability Name='' @ [CHR 0x22])
                                 ([CHR 0x22] @ '' />'') caps gs
                  | None \<Rightarrow> caps);
          caps = (case device config of
                    Some ds \<Rightarrow> pushEach (''    <DeviceCapability Name='' @ [CHR 0x22])
                                 ([CHR 0x22] @ '' />'') caps ds
                  | None \<Rightarrow> caps);
          caps = (case restricted config of
                    Some rs \<Rightarrow> pushEach (''    <rescap:Capability Name='' @ [CHR 0x22])
                                 ([CHR 0x22] @ '' />'') caps rs
                  | None \<Rightarrow> caps)
      in joinWith [CHR 0x0A] caps)"

section \<open>Pseudo-CLSID derivation (core/manifest.ts)\<close>

text \<open>
  JavaScript's 32-bit integer operators on numbers that hold integers: \<^verbatim>\<open>x << n\<close> and
  \<^verbatim>\<open>x & y\<close> convert their operands to 32-bit words and give a signed 32-bit result.
\<close>

definition shiftLeft32 :: "int \<Rightarrow> nat \<Rightarrow> int" where
  "shiftLeft32 x n = sint (push_bit n (word_of_int x :: 32 word))"

definition bitAnd32 :: "int \<Rightarrow> int \<Rightarrow> int" where
  "bitAnd32 x y = sint ((word_of_int x :: 32 word) AND word_of_int y)"

text \<open>
  The seed is read through \<^verbatim>\<open>charCodeAt\<close> only, so it is taken as its sequence of UTF-16
  code units. The loop of \<^verbatim>\<open>generateClsid\<close>; \<^verbatim>\<open>(hash << 5) - hash + char\<close> is exact
  arithmetic on numbers far below \<open>2 ^ 53\<close>.
\<close>

fun hashLoop :: "int \<Rightarrow> 16 word list \<Rightarrow> int" where
  "hashLoop hash [] = hash"
| "hashLoop hash (c # cs) =
     (let char = uint c;
          hash = shiftLeft32 hash 5 - hash + char;
          hash = bitAnd32 hash hash
      in hashLoop hash cs)"

text \<open>\<^verbatim>\<open>n.toString(16)\<close> for a non-negative integer \<open>n\<close>: lower-case digits, no
  leading zero.\<close>

definition hexDigit :: "nat \<Rightarrow> char" where
  "hexDigit d = ''0123456789abcdef'' ! d"

fun toString16 :: "nat \<Rightarrow> string" where
  "toString16 n = (if n < 16 then [hexDigit n] else toString16 (n div 16) @ [hexDigit (n mod 16)])"

declare toString16.simps [simp del]

text \<open>\<^verbatim>\<open>s.padStart(n, c)\<close> with a one-character filler, and \<^verbatim>\<open>s.slice(a, b)\<close> for
  \<open>0 \<le> a \<le> b\<close>.\<close>

definition padStart :: "nat \<Rightarrow> char \<Rightarrow> string \<Rightarrow> string" where
  "padStart n c s = replicate (n - length s) c @ s"

definition sliceString :: "nat \<Rightarrow> nat \<Rightarrow> string \<Rightarrow> string" where
  "sliceString a b s = take (b - a) (drop a s)"

text \<open>\<^verbatim>\<open>s.toUpperCase()\<close> on ASCII text: the letters a to z are raised, every other
  ASCII character is kept.\<close>

definition upperChar :: "char \<Rightarrow> char" where
  "upperChar c =
     (let code = (of_char c :: nat)
      in if 97 \<le> code \<and> code \<le> 122 then char_of (code - 32) else c)"

definition toUpperCase :: "string \<Rightarrow> string" where
  "toUpperCase s = map upperChar s"

definition generateClsid :: "16 word list \<Rightarrow> string" where
  "generateClsid seed =
     (let hash = hashLoop 0 seed;
          hex = padStart 8 (CHR ''0'') (toString16 (nat \<bar>hash\<bar>));
          hex2 = padStart 8 (CHR ''0'') (toString16 (nat \<bar>hash * 31\<bar>));
          hex3 = padStart 8 (CHR ''0'') (toString16 (nat \<bar>hash * 37\<bar>));
          hex4 = padStart 12 (CHR ''0'') (toString16 (nat \<bar>hash * 41\<bar>))
      in toUpperCase
           (''{'' @ sliceString 0 8 hex @ ''-'' @ sliceString 0 4 hex2 @ ''-'' @ sliceString 4 8 hex2 @ ''-''
              @ sliceString 0 4 hex3 @ ''-'' @ sliceString 0 12 hex4 @ ''}''))"

text \<open>The code units of a text, for seeds written as literals.\<close>

definition codeUnits :: "string \<Rightarrow> 16 word list" where
  "codeUnits s = map (\<lambda>c. word_of_nat (of_char c)) s"

text \<open>The canonical shape: braces, hyphens at the four group boundaries, and upper-case
  hexadecimal digits in groups of 8, 4, 4, 4 and 12.\<close>

definition upperHex :: "string \<Rightarrow> bool" where
  "upperHex s = list_all (\<lambda>c. c \<in> set ''0123456789ABCDEF'') s"

definition clsidShape :: "string \<Rightarrow> bool" where
  "clsidShape s =
     (length s = 38 \<and>
      take 1 s = ''{'' \<and> upperHex (sliceString 1 9 s) \<and>
      sliceString 9 10 s = ''-'' \<and> upperHex (sliceString 10 14 s) \<and>
      sliceString 14 15 s = ''-'' \<and> upperHex (sliceString 15 19 s) \<and>
      sliceString 19 20 s = ''-'' \<and> upperHex (sliceString 20 24 s) \<and>
      sliceString 24 25 s = ''-'' \<and> upperHex (sliceString 25 37 s) \<and>
      sliceString 37 38 s = ''}'')"

section \<open>Configuration documents (types.ts)\<close>

text \<open>
  The interfaces of \<^verbatim>\<open>types.ts\<close>, one record each; an optional property is an
  \<^typ>\<open>'a option\<close>, and \<^verbatim>\<open>string | null\<close> likewise. Field names are shared between
  interfaces and are written qualified.
\<close>

datatype Resource = ResourcePath string | ResourceMapping string string

record TauriWindowsConfig =
  certificateThumbprint :: "string option"

record TauriBundle =
  icon :: "string list option"
  shortDescription :: "string option"
  longDescription :: "string option"
  publisher :: "string option"
  resources :: "Resource list option"
  windows :: "TauriWindowsConfig option"

record TauriConfig =
  productName :: "string option"
  version :: "string option"
  "identifier" :: "string option"
  "bundle" :: "TauriBundle option"

record ResourceIndex =
  enabled :: "bool option"
  keepConfig :: "bool option"

record Signing =
  pfx :: "string option"
  pfxPassword :: "string option"

record FileAssociation =
  name :: string
  extensions :: "string list"
  description :: "string option"

record ProtocolHandler =
  name :: string
  displayName :: "string option"

record StartupTask =
  enabled :: bool
  taskId :: "string option"

record ContextMenu =
  name :: string
  fileTypes :: "string list"
  displayName :: "string option"

record BackgroundTask =
  name :: string
  "type" :: string

record AppExecutionAlias =
  "alias" :: string
  displayName :: "string option"

record AppService =
  name :: string
  serverName :: "string option"

record ToastActivation =
  activationType :: string

record AutoplayHandler =
  verb :: string
  actionDisplayName :: string
  contentEvent :: "string option"
  deviceEvent :: "string option"

record PrintTaskSettings =
  displayName :: string

record ThumbnailHandler =
  clsid :: string
  fileTypes :: "string list"

record PreviewHandler =
  clsid :: string
  fileTypes :: "string list"

record Extensions =
  shareTarget :: "bool option"
  fileAssociations :: "FileAssociation list option"
  protocolHandlers :: "ProtocolHandler list option"
  startupTask :: "StartupTask option"
  contextMenus :: "ContextMenu list option"
  backgroundTasks :: "BackgroundTask list option"
  appExecutionAliases :: "AppExecutionAlias list option"
  appServices :: "AppService list option"
  toastActivation :: "ToastActivation option"
  autoplayHandlers :: "AutoplayHandler list option"
  printTaskSettings :: "PrintTaskSettings option"
  thumbnailHandlers :: "ThumbnailHandler list option"
  previewHandlers :: "PreviewHandler list option"

record BundleConfig =
  publisher :: "string option"
  publisherDisplayName :: "string option"
  resourceIndex :: "ResourceIndex option"
  capabilities :: "CapabilitiesConfig option"
  extensions :: "Extensions option"
  signing :: "Signing option"

text \<open>
  \<^verbatim>\<open>interface MergedConfig extends BundleConfig\<close>. The interface narrows
  \<^verbatim>\<open>publisher\<close> and \<^verbatim>\<open>publisherDisplayName\<close> to \<^verbatim>\<open>string\<close>, but the object that
  \<^verbatim>\<open>build\<close> creates takes both from the bundle configuration by a spread, so at run time
  they are what the bundle configuration holds: a string or nothing.
\<close>

record MergedConfig = BundleConfig +
  displayName :: string
  version :: string
  description :: string
  "identifier" :: string

section \<open>The merged configuration of the build command (commands/build.ts)\<close>

text \<open>\<^verbatim>\<open>x || d\<close> for an optional string \<open>x\<close>: \<open>d\<close> when \<open>x\<close> is undefined or empty.\<close>

definition orElse :: "string option \<Rightarrow> string \<Rightarrow> string" where
  "orElse x d = (case x of Some s \<Rightarrow> if s = [] then d else s | None \<Rightarrow> d)"

text \<open>
  The part of \<^verbatim>\<open>build\<close> from \<^verbatim>\<open>// Read configs\<close> to \<^verbatim>\<open>// Merge config\<close>, as a function of
  the two documents read (\<^verbatim>\<open>tauri.conf.json\<close> and \<^verbatim>\<open>bundle.config.json\<close>). The result is
  the constant \<^verbatim>\<open>config\<close>, or, when the capabilities are invalid, the lines written to
  \<^verbatim>\<open>console.error\<close> before \<^verbatim>\<open>process.exit(1)\<close>.
\<close>

definition build_config :: "TauriConfig \<Rightarrow> BundleConfig \<Rightarrow> string list + MergedConfig" where
  "build_config tauriConfig bundleConfig =
     (let config =
        \<lparr>BundleConfig.publisher = BundleConfig.publisher bundleConfig,
         publisherDisplayName = publisherDisplayName bundleConfig,
         resourceIndex = resourceIndex bundleConfig,
         capabilities = capabilities bundleConfig,
         extensions = BundleConfig.extensions bundleConfig,
         signing = signing bundleConfig,
         displayName = orElse (productName tauriConfig) ''App'',
         version = toFourPartVersion (orElse (TauriConfig.version tauriConfig) ''1.0.0''),
         description = orElse (Option.bind (bundle tauriConfig) shortDescription) [],
         identifier = orElse (TauriConfig.identifier tauriConfig) ''com.example.app''\<rparr>
      in case capabilities bundleConfig of
           Some caps \<Rightarrow>
             (let errors = validateCapabilities caps
              in if length errors > 0
                 then Inl (''Invalid capabilities in bundle.config.json:''
                           # map (\<lambda>error. ''  - '' @ error) errors)
                 else Inr config)
         | None \<Rightarrow> Inr config)"

section \<open>Manifest generation (core/manifest.ts)\<close>

text \<open>
  The white space of \<^verbatim>\<open>\s\<close> and of \<^verbatim>\<open>trimEnd\<close> among the characters of
  \<^typ>\<open>char\<close>: tab, line feed, vertical tab, form feed, carriage return, space and
  no-break space.
\<close>

definition isWhiteSpace :: "char \<Rightarrow> bool" where
  "isWhiteSpace c = ((of_char c :: nat) \<in> set [9, 10, 11, 12, 13, 32, 160])"

text \<open>\<^verbatim>\<open>s.replace(/\s+/g, '')\<close>, \<^verbatim>\<open>s.replace(/[{}]/g, '')\<close>, \<^verbatim>\<open>s.trimEnd()\<close> and
  \<^verbatim>\<open>s.endsWith(t)\<close>.\<close>

definition removeWhiteSpace :: "string \<Rightarrow> string" where
  "removeWhiteSpace s = filter (\<lambda>c. \<not> isWhiteSpace c) s"

definition removeBraces :: "string \<Rightarrow> string" where
  "removeBraces s = filter (\<lambda>c. c \<noteq> CHR ''{'' \<and> c \<noteq> CHR ''}'') s"

definition trimEnd :: "string \<Rightarrow> string" where
  "trimEnd s = rev (dropWhile isWhiteSpace (rev s))"

definition endsWith :: "string \<Rightarrow> string \<Rightarrow> bool" where
  "endsWith s t = (length t \<le> length s \<and> drop (length s - length t) s = t)"

text \<open>
  Modelled from the spec: the literal replacement that \<^verbatim>\<open>replaceTemplateVariables\<close>
  applies for one placeholder. Section 4.5 of the spec calls the substitution "literal
  placeholder-token replacement ... across the full template text": every occurrence of
  the token \<open>pat\<close>, found from left to right, is replaced by \<open>rep\<close>.
\<close>

function replaceAll :: "string \<Rightarrow> string \<Rightarrow> string \<Rightarrow> string" where
  "replaceAll pat rep [] = []"
| "replaceAll pat rep (c # cs) =
     (if pat \<noteq> [] \<and> take (length pat) (c # cs) = pat
      then rep @ replaceAll pat rep (drop (length pat) (c # cs))
      else c # replaceAll pat rep cs)"
  by pat_completeness auto
termination
  by (relation "measure (\<lambda>(pat, rep, s). length s)") auto

text \<open>
  Modelled from the spec: the placeholder token of a variable, in the \<^verbatim>\<open>{{TOKEN}}\<close> style
  that section 4.5 of the spec names.
\<close>

definition placeholder :: "string \<Rightarrow> string" where
  "placeholder key = ''{{'' @ key @ ''}}''"

text \<open>
  Modelled from the spec: \<^verbatim>\<open>replaceTemplateVariables\<close> of \<^verbatim>\<open>utils/template.ts\<close>, which is
  not among the sources. Section 4.5 of the spec gives it a flat mapping from placeholder
  names to string values and the template text; the placeholder of each variable is
  replaced by its value, one variable after the other in the order of the mapping.
\<close>

fun replaceTemplateVariables :: "string \<Rightarrow> (string \<times> string) list \<Rightarrow> string" where
  "replaceTemplateVariables template [] = template"
| "replaceTemplateVariables template ((key, value) # variables) =
     replaceTemplateVariables (replaceAll (placeholder key) value template) variables"

text \<open>
  \<^verbatim>\<open>generateExtensions\<close>. The fragment templates are files of the package
  (\<^verbatim>\<open>templates/extensions/NAME.xml\<close>); \<open>getExtensionTemplate\<close> gives their text. Each
  \<^verbatim>\<open>for\<close> loop that pushes one fragment per entry is a \<^const>\<open>fold\<close> over the entries. A
  list or object property is truthy when present, a boolean when true, a string when
  present and not empty.
\<close>

definition fileTypeLines :: "string \<Rightarrow> string \<Rightarrow> string list \<Rightarrow> string" where
  "fileTypeLines opening closing exts =
     joinWith [CHR 0x0A] (map (\<lambda>ext. opening @ ext @ closing) exts)"

definition generateExtensions :: "(string \<Rightarrow> string) \<Rightarrow> MergedConfig \<Rightarrow> string" where
  "generateExtensions getExtensionTemplate config =
     (let ext = BundleConfig.extensions config;
          exts = [];
          exts = (if Option.bind ext shareTarget = Some True
                  then exts @ [trimEnd (getExtensionTemplate ''share-target'')]
                  else exts);
          exts = (case Option.bind ext fileAssociations of
                    Some assocs \<Rightarrow>
                      fold (\<lambda>assoc exts.
                              exts @ [trimEnd (replaceTemplateVariables
                                (getExtensionTemplate ''file-association'')
                                [(''NAME'', FileAssociation.name assoc),
                                 (''FILE_TYPES'',
                                  fileTypeLines ''          <uap:FileType>'' ''</uap:FileType>''
                                    (FileAssociation.extensions assoc))])])
                        assocs exts
                  | None \<Rightarrow> exts);
          exts = (case Option.bind ext protocolHandlers of
                    Some handlers \<Rightarrow>
                      fold (\<lambda>handler exts.
                              exts @ [trimEnd (replaceTemplateVariables
                                (getExtensionTemplate ''protocol'')
                                [(''NAME'', ProtocolHandler.name handler),
                                 (''DISPLAY_NAME'',
                                  orElse (ProtocolHandler.displayName handler)
                                    (ProtocolHandler.name handler))])])
                        handlers exts
                  | None \<Rightarrow> exts);
          exts = (case Option.bind ext startupTask of
                    Some task \<Rightarrow>
                      if StartupTask.enabled task
                      then exts @ [trimEnd (replaceTemplateVariables
                             (getExtensionTemplate ''startup-task'')
                             [(''TASK_ID'', orElse (taskId task) ''StartupTask''),
                              (''DISPLAY_NAME'', MergedConfig.displayName config)])]
                      else exts
                  | None \<Rightarrow> exts);
          exts = (case Option.bind ext contextMenus of
                    Some menus \<Rightarrow>
                      fold (\<lambda>menu exts.
                              exts @ [trimEnd (replaceTemplateVariables
                                (getExtensionTemplate ''context-menu'')
                                [(''NAME'', ContextMenu.name menu),
                                 (''FILE_TYPES'',
                                  fileTypeLines ''            <desktop:FileType>''
                                    ''</desktop:FileType>'' (ContextMenu.fileTypes menu))])])
                        menus exts
                  | None \<Rightarrow> exts);
          exts = (case Option.bind ext backgroundTasks of
                    Some tasks \<Rightarrow>
                      fold (\<lambda>task exts.
                              exts @ [trimEnd (replaceTemplateVariables
                                (getExtensionTemplate ''background-task'')
                                [(''ENTRY_POINT'', BackgroundTask.name task),
                                 (''TRIGGER_TYPE'',
                                  if BackgroundTask.type task = ''timer'' then ''TimeTrigger''
                                  else if BackgroundTask.type task = ''systemEvent''
                                  then ''SystemTrigger''
                                  else ''PushNotificationTrigger'')])])
                        tasks exts
                  | None \<Rightarrow> exts);
          exts = (case Option.bind ext appExecutionAliases of
                    Some aliases \<Rightarrow>
                      (let executable =
                             removeWhiteSpace (MergedConfig.displayName config) @ ''.exe''
                       in fold (\<lambda>alias exts.
                              exts @ [trimEnd (replaceTemplateVariables
                                (getExtensionTemplate ''app-execution-alias'')
                                [(''ALIAS'',
                                  if endsWith (AppExecutionAlias.alias alias) ''.exe''
                                  then AppExecutionAlias.alias alias
                                  else AppExecutionAlias.alias alias @ ''.exe''),
                                 (''EXECUTABLE'', executable)])])
                            aliases exts)
                  | None \<Rightarrow> exts);
          exts = (case Option.bind ext appServices of
                    Some services \<Rightarrow>
                      fold (\<lambda>service exts.
                              exts @ [trimEnd (replaceTemplateVariables
                                (getExtensionTemplate ''app-service'')
                                [(''NAME'', AppService.name service)])])
                        services exts
                  | None \<Rightarrow> exts);
          exts = (case Option.bind ext toastActivation of
                    Some toast \<Rightarrow>
                      exts @ [trimEnd (replaceTemplateVariables
                        (getExtensionTemplate ''toast-activation'')
                        [(''CLSID'',
                          generateClsid
                            (codeUnits (MergedConfig.identifier config @ ''.toast'')))])]
                  | None \<Rightarrow> exts);
          exts = (case Option.bind ext autoplayHandlers of
                    Some handlers \<Rightarrow>
                      fold (\<lambda>handler exts.
                              (let exts =
                                 (case contentEvent handler of
                                    Some event \<Rightarrow>
                                      if event \<noteq> []
                                      then exts @ [trimEnd (replaceTemplateVariables
                                             (getExtensionTemplate ''autoplay'')
                                             [(''VERB'', verb handler),
                                              (''ACTION_DISPLAY_NAME'',
                                               actionDisplayName handler),
                                              (''CONTENT_EVENT'', event)])]
                                      else exts
                                  | None \<Rightarrow> exts)
                               in case deviceEvent handler of
                                    Some event \<Rightarrow>
                                      if event \<noteq> []
                                      then exts @ [trimEnd (replaceTemplateVariables
                                             (getExtensionTemplate ''autoplay-device'')
                                             [(''VERB'', verb handler),
                                              (''ACTION_DISPLAY_NAME'',
                                               actionDisplayName handler),
                                              (''DEVICE_EVENT'', event)])]
                                      else exts
                                  | None \<Rightarrow> exts))
                        handlers exts
                  | None \<Rightarrow> exts);
          exts = (case Option.bind ext printTaskSettings of
                    Some settings \<Rightarrow>
                      exts @ [trimEnd (getExtensionTemplate ''print-task-settings'')]
                  | None \<Rightarrow> exts);
          exts = (case Option.bind ext thumbnailHandlers of
                    Some handlers \<Rightarrow>
                      fold (\<lambda>handler exts.
                              exts @ [trimEnd (replaceTemplateVariables
                                (getExtensionTemplate ''thumbnail-handler'')
                                [(''NAME'',
                                  ''thumbnail-''
                                    @ sliceString 0 8 (removeBraces (ThumbnailHandler.clsid handler))),
                                 (''FILE_TYPES'',
                                  fileTypeLines ''          <uap:FileType>'' ''</uap:FileType>''
                                    (ThumbnailHandler.fileTypes handler)),
                                 (''CLSID'', ThumbnailHandler.clsid handler)])])
                        handlers exts
                  | None \<Rightarrow> exts);
          exts = (case Option.bind ext previewHandlers of
                    Some handlers \<Rightarrow>
                      fold (\<lambda>handler exts.
                              exts @ [trimEnd (replaceTemplateVariables
                                (getExtensionTemplate ''preview-handler'')
                                [(''NAME'',
                                  ''preview-''
                                    @ sliceString 0 8 (removeBraces (PreviewHandler.clsid handler))),
                                 (''FILE_TYPES'',
                                  fileTypeLines ''          <uap:FileType>'' ''</uap:FileType>''
                                    (PreviewHandler.fileTypes handler)),
                                 (''CLSID'', PreviewHandler.clsid handler)])])
                        handlers exts
                  | None \<Rightarrow> exts)
      in if length exts = 0 then []
         else ''      <Extensions>'' @ [CHR 0x0A] @ joinWith [CHR 0x0A, CHR 0x0A] exts
                @ [CHR 0x0A] @ ''      </Extensions>'')"

text \<open>
  \<^verbatim>\<open>generateManifest\<close>. The file \<^verbatim>\<open>AppxManifest.xml.template\<close> of \<^verbatim>\<open>windowsDir\<close> is
  given by its text, \<open>None\<close> when the file does not exist (\<^verbatim>\<open>getManifestTemplate\<close> then
  throws); the variables are evaluated first, as in the source. A \<^verbatim>\<open>publisher\<close> or
  \<^verbatim>\<open>publisherDisplayName\<close> that is undefined at run time enters the text as string
  conversion renders it.
\<close>

datatype manifest_error = TemplateNotFound

definition asText :: "string option \<Rightarrow> string" where
  "asText x = (case x of Some s \<Rightarrow> s | None \<Rightarrow> ''undefined'')"

definition manifestVariables ::
    "(string \<Rightarrow> string) \<Rightarrow> MergedConfig \<Rightarrow> string \<Rightarrow> string \<Rightarrow> (string \<times> string) list" where
  "manifestVariables getExtensionTemplate config arch minVersion =
     [(''PACKAGE_NAME'', MergedConfig.identifier config),
      (''PUBLISHER'', asText (BundleConfig.publisher config)),
      (''VERSION'', MergedConfig.version config),
      (''ARCH'', arch),
      (''DISPLAY_NAME'', MergedConfig.displayName config),
      (''PUBLISHER_DISPLAY_NAME'', asText (publisherDisplayName config)),
      (''MIN_VERSION'', minVersion),
      (''EXECUTABLE'', removeWhiteSpace (MergedConfig.displayName config) @ ''.exe''),
      (''DESCRIPTION'',
       if MergedConfig.description config \<noteq> [] then MergedConfig.description config
       else MergedConfig.displayName config),
      (''EXTENSIONS'', generateExtensions getExtensionTemplate config),
      (''CAPABILITIES'',
       generateCapabilities
         (case capabilities config of Some caps \<Rightarrow> caps | None \<Rightarrow> DEFAULT_CAPABILITIES))]"

definition generateManifest ::
    "(string \<Rightarrow> string) \<Rightarrow> string option \<Rightarrow> MergedConfig \<Rightarrow> string \<Rightarrow> string
       \<Rightarrow> manifest_error + string" where
  "generateManifest getExtensionTemplate manifestTemplate config arch minVersion =
     (let variables = manifestVariables getExtensionTemplate config arch minVersion
      in case manifestTemplate of
           None \<Rightarrow> Inl TemplateNotFound
         | Some template \<Rightarrow> Inr (replaceTemplateVariables template variables))"

text \<open>
  Two texts agree when one is a beginning of the other. A pattern \<open>p\<close> is clear of a text
  \<open>q\<close> when no match of \<open>p\<close> can overlap an occurrence of \<open>q\<close>: \<open>p\<close> agrees with no
  non-empty end of \<open>q\<close>, and no proper non-empty end of \<open>p\<close> agrees with \<open>q\<close>.
\<close>

definition agree :: "string \<Rightarrow> string \<Rightarrow> bool" where
  "agree x y = (take (length y) x = take (length x) y)"

definition clearOf :: "string \<Rightarrow> string \<Rightarrow> bool" where
  "clearOf p q =
     (list_all (\<lambda>j. \<not> agree p (drop j q)) [0..<length q] \<and>
      list_all (\<lambda>k. \<not> agree (drop k p) q) [1..<length p])"

section \<open>Properties of the version normaliser\<close>

lemma padParts_eq: "padParts parts = parts @ replicate (4 - length parts) ''0''"
proof (induction parts rule: padParts.induct)
  case (1 parts)
  show ?case
  proof (cases "length parts < 4")
    case True
    then have "padParts parts = padParts (parts @ [''0''])"
      by (subst padParts.simps) simp
    also have "\<dots> = (parts @ [''0'']) @ replicate (4 - length (parts @ [''0''])) ''0''"
      using 1 True by simp
    also have "\<dots> = parts @ replicate (Suc (4 - Suc (length parts))) ''0''"
      by (simp add: replicate_app_Cons_same)
    also have "Suc (4 - Suc (length parts)) = 4 - length parts"
      using True by arith
    finally show ?thesis .
  next
    case False
    then show ?thesis by (subst padParts.simps) simp
  qed
qed

lemma splitOn_not_Nil: "splitOn sep s \<noteq> []"
  by (induction s) (auto simp: Let_def)

lemma splitOn_pieces: "p \<in> set (splitOn sep s) \<Longrightarrow> sep \<notin> set p"
proof (induction s arbitrary: p)
  case Nil
  then show ?case by simp
next
  case (Cons c cs)
  obtain q qs where r: "splitOn sep cs = q # qs"
    using splitOn_not_Nil [of sep cs] by (cases "splitOn sep cs") auto
  show ?case
  proof (cases "c = sep")
    case True
    with Cons show ?thesis by (auto simp: Let_def)
  next
    case False
    with Cons.prems r have "p = c # q \<or> p \<in> set qs" by (auto simp: Let_def)
    moreover have "sep \<notin> set q" using Cons.IH [of q] r by simp
    moreover have "p \<in> set qs \<Longrightarrow> sep \<notin> set p" using Cons.IH [of p] r by simp
    ultimately show ?thesis using False by auto
  qed
qed

lemma splitOn_plain: "sep \<notin> set p \<Longrightarrow> splitOn sep p = [p]"
  by (induction p) (auto simp: Let_def)

lemma splitOn_append_sep:
  "sep \<notin> set p \<Longrightarrow> splitOn sep (p @ sep # rest) = p # splitOn sep rest"
  by (induction p) (auto simp: Let_def)

text \<open>Splitting undoes joining, as long as no piece holds the separator.\<close>

lemma splitOn_joinWith:
  "xs \<noteq> [] \<Longrightarrow> (\<And>p. p \<in> set xs \<Longrightarrow> sep \<notin> set p) \<Longrightarrow>
     splitOn sep (joinWith [sep] xs) = xs"
proof (induction "[sep]" xs rule: joinWith.induct)
  case 1
  then show ?case by simp
next
  case (2 x)
  then show ?case by (simp add: splitOn_plain)
next
  case (3 x y ys)
  then show ?case by (simp add: splitOn_append_sep)
qed

lemma split_toFourPartVersion:
  "splitOn (CHR ''.'') (toFourPartVersion v) =
     take 4 (splitOn (CHR ''.'') v @ replicate 4 ''0'')"
proof -
  let ?segs = "splitOn (CHR ''.'') v"
  let ?out = "take 4 (?segs @ replicate (4 - length ?segs) ''0'')"
  have ne: "?out \<noteq> []"
    using splitOn_not_Nil [of "CHR ''.''" v] by (cases ?segs) auto
  have nodot: "CHR ''.'' \<notin> set p" if "p \<in> set ?out" for p
  proof -
    from that have "p \<in> set ?segs \<or> p = ''0''"
      by (auto dest!: in_set_takeD)
    then show ?thesis using splitOn_pieces [of p "CHR ''.''" v] by auto
  qed
  have "toFourPartVersion v = joinWith ''.'' ?out"
    by (simp add: toFourPartVersion_def padParts_eq Let_def)
  then have "splitOn (CHR ''.'') (toFourPartVersion v) = ?out"
    using splitOn_joinWith [OF ne nodot] by simp
  also have "?out = take 4 (?segs @ replicate 4 ''0'')"
    by (simp add: min_def)
  finally show ?thesis .
qed

lemma toFourPartVersion_examples:
  "toFourPartVersion ''1.0'' = ''1.0.0.0''"
  "toFourPartVersion ''1.2.3.4.5'' = ''1.2.3.4''"
  "toFourPartVersion '''' = ''.0.0.0''"
  "toFourPartVersion ''abc'' = ''abc.0.0.0''"
  "toFourPartVersion ''1.x.3'' = ''1.x.3.0''"
  by code_simp+

text \<open>
  C4. For every version string, \<open>toFourPartVersion\<close> returns a string of exactly four
  dot-separated segments: they are the first four of the input's segments followed by
  `0` segments, so missing trailing segments are padded with `0` and segments beyond the
  fourth are dropped. In particular `1.0` becomes `1.0.0.0` and `1.2.3.4.5` becomes
  `1.2.3.4`.
\<close>

theorem toFourPartVersion_four_segments:
  "length (splitOn (CHR ''.'') (toFourPartVersion v)) = 4 \<and>
   splitOn (CHR ''.'') (toFourPartVersion v)
     = take 4 (splitOn (CHR ''.'') v @ [''0'', ''0'', ''0'', ''0'']) \<and>
   toFourPartVersion ''1.0'' = ''1.0.0.0'' \<and>
   toFourPartVersion ''1.2.3.4.5'' = ''1.2.3.4''"
proof -
  have "replicate 4 ''0'' = [''0'', ''0'', ''0'', ''0'']"
    by (simp add: numeral_eq_Suc)
  then show ?thesis
    using split_toFourPartVersion [of v] by (simp add: toFourPartVersion_examples)
qed

text \<open>
  C9. For every input string, the empty string and strings with non-numeric segments
  included, the result of \<open>toFourPartVersion\<close> splits on the dot into exactly four
  segments. Nothing is validated: each of the (up to four) input segments that are kept
  is carried into the output as it is, at its position; `abc` gives `abc.0.0.0`.
\<close>

theorem toFourPartVersion_verbatim:
  "length (splitOn (CHR ''.'') (toFourPartVersion v)) = 4 \<and>
   (\<forall>i < min 4 (length (splitOn (CHR ''.'') v)).
      splitOn (CHR ''.'') (toFourPartVersion v) ! i = splitOn (CHR ''.'') v ! i) \<and>
   toFourPartVersion '''' = ''.0.0.0'' \<and>
   toFourPartVersion ''abc'' = ''abc.0.0.0'' \<and>
   toFourPartVersion ''1.x.3'' = ''1.x.3.0''"
  by (simp add: split_toFourPartVersion toFourPartVersion_examples nth_append)

theorem toFourPartVersion_verbatim_witness:
  "(1::nat) < min 4 (length (splitOn (CHR ''.'') ''1.beta'')) \<and>
   splitOn (CHR ''.'') (toFourPartVersion ''1.beta'') ! 1 = ''beta''"
proof -
  have h: "(1::nat) < min 4 (length (splitOn (CHR ''.'') ''1.beta''))"
    by simp
  have "\<forall>i < min 4 (length (splitOn (CHR ''.'') ''1.beta'')).
          splitOn (CHR ''.'') (toFourPartVersion ''1.beta'') ! i
            = splitOn (CHR ''.'') ''1.beta'' ! i"
    using toFourPartVersion_verbatim [of "''1.beta''"] by blast
  with h have "splitOn (CHR ''.'') (toFourPartVersion ''1.beta'') ! 1
                 = splitOn (CHR ''.'') ''1.beta'' ! 1"
    by blast
  with h show ?thesis by simp
qed

section \<open>Properties of the merge patch\<close>

text \<open>
  C2. For every object \<open>target\<close> and every key \<open>k\<close> present in it, merging the patch
  \<open>{k: null}\<close> gives an object in which \<open>k\<close> is absent and every other key has the value
  it had in \<open>target\<close>: null is a tombstone and no other key is affected. (The result is
  \<open>target\<close> with the property \<open>k\<close> deleted, the other properties in their order.)
\<close>

theorem merge_tombstone:
  "k \<in> fst ` set target \<Longrightarrow>
   jsonMergePatch (JObj target) (JObj [(k, JNull)]) = JObj (AList.delete k target) \<and>
   k \<notin> fst ` set (AList.delete k target) \<and>
   (\<forall>k'. k' \<noteq> k \<longrightarrow> map_of (AList.delete k target) k' = map_of target k')"
  by (simp add: delete_notin_dom map_of_delete)

theorem merge_tombstone_witness:
  "''a'' \<in> fst ` set [(''a'', JNum (1::int)), (''b'', JNum 2)] \<and>
   jsonMergePatch (JObj [(''a'', JNum (1::int)), (''b'', JNum 2)]) (JObj [(''a'', JNull)])
     = JObj [(''b'', JNum 2)] \<and>
   map_of [(''b'', JNum (2::int))] ''b'' = Some (JNum 2)"
proof -
  have h: "''a'' \<in> fst ` set [(''a'', JNum (1::int)), (''b'', JNum 2)]"
    by simp
  from merge_tombstone [OF h] show ?thesis
    using h by (simp add: AList.delete_eq)
qed

text \<open>
  C3. For every \<open>target\<close> and every \<open>patch\<close> that is not an object (a scalar, an array or
  null), the merge is \<open>patch\<close> itself. Arrays are replaced wholesale: merging
  \<open>{a: [4, 5]}\<close> into \<open>{a: [1, 2, 3]}\<close> gives \<open>{a: [4, 5]}\<close>.
\<close>

theorem merge_non_object_patch:
  "(\<not> isObject patch \<longrightarrow> jsonMergePatch target patch = patch) \<and>
   jsonMergePatch (JObj [(''a'', JArr [JNum (1::int), JNum 2, JNum 3])])
                  (JObj [(''a'', JArr [JNum 4, JNum 5])])
     = JObj [(''a'', JArr [JNum 4, JNum 5])]"
  by (cases patch) (simp_all add: getProp_def)

theorem merge_non_object_patch_witness:
  "\<not> isObject (JArr [JNum (4::int), JNum 5]) \<and>
   jsonMergePatch (JObj [(''a'', JArr [JNum 1, JNum 2, JNum 3])]) (JArr [JNum (4::int), JNum 5])
     = JArr [JNum 4, JNum 5]"
proof -
  have h: "\<not> isObject (JArr [JNum (4::int), JNum 5])"
    by simp
  with merge_non_object_patch
         [of "JArr [JNum (4::int), JNum 5]" "JObj [(''a'', JArr [JNum 1, JNum 2, JNum 3])]"]
  show ?thesis by blast
qed

section \<open>Properties of the capability validator\<close>

text \<open>A loop of the validator appends, in declaration order, one message for each token
  that is not in the whitelist.\<close>

lemma checkEach_eq:
  "checkEach kind valid errors caps =
     errors @ map (\<lambda>cap. ''Invalid '' @ kind @ '' capability: '' @ [CHR 0x22] @ cap @ [CHR 0x22]
                            @ ''. Valid: '' @ joinWith '', '' valid)
                (filter (\<lambda>cap. cap \<notin> set valid) caps)"
  by (induction caps arbitrary: errors) simp_all

lemma checkEach_declared:
  "(case caps of Some cs \<Rightarrow> checkEach kind valid errors cs | None \<Rightarrow> errors) =
     errors @ map (\<lambda>cap. ''Invalid '' @ kind @ '' capability: '' @ [CHR 0x22] @ cap @ [CHR 0x22]
                            @ ''. Valid: '' @ joinWith '', '' valid)
                (filter (\<lambda>cap. cap \<notin> set valid) (declared caps))"
  by (cases caps) (simp_all add: declared_def checkEach_eq)

lemma validateCapabilities_eq:
  "validateCapabilities config =
     map (\<lambda>cap. ''Invalid general capability: '' @ [CHR 0x22] @ cap @ [CHR 0x22]
                  @ ''. Valid: '' @ joinWith '', '' GENERAL_CAPABILITIES)
       (filter (\<lambda>cap. cap \<notin> set GENERAL_CAPABILITIES) (declared (general config))) @
     map (\<lambda>cap. ''Invalid device capability: '' @ [CHR 0x22] @ cap @ [CHR 0x22]
                  @ ''. Valid: '' @ joinWith '', '' DEVICE_CAPABILITIES)
       (filter (\<lambda>cap. cap \<notin> set DEVICE_CAPABILITIES) (declared (device config))) @
     map (\<lambda>cap. ''Invalid restricted capability: '' @ [CHR 0x22] @ cap @ [CHR 0x22]
                  @ ''. Valid: '' @ joinWith '', '' RESTRICTED_CAPABILITIES)
       (filter (\<lambda>cap. cap \<notin> set RESTRICTED_CAPABILITIES) (declared (restricted config)))"
  unfolding validateCapabilities_def Let_def checkEach_declared by simp

lemma filter_out_empty: "filter (\<lambda>x. x \<notin> A) xs = [] \<longleftrightarrow> set xs \<subseteq> A"
  by (induction xs) auto

lemma validate_example:
  "validateCapabilities \<lparr>general = Some [''bad1''], device = Some [''bad2''], restricted = None\<rparr> =
     [''Invalid general capability: '' @ [CHR 0x22] @ ''bad1'' @ [CHR 0x22] @
        ''. Valid: internetClient, internetClientServer, privateNetworkClientServer, allJoyn, codeGeneration'',
      ''Invalid device capability: '' @ [CHR 0x22] @ ''bad2'' @ [CHR 0x22] @
        ''. Valid: webcam, microphone, location, proximity, bluetooth, serialcommunication, usb, humaninterfacedevice, pointOfService, lowLevelDevices, gazeInput, radios'']"
  by code_simp

text \<open>
  C5. For every capabilities declaration, \<open>validateCapabilities\<close> returns one message for
  every declared token that is not in its category's whitelist, all of them and not only
  the first: the messages for \<open>general\<close>, then those for \<open>device\<close>, then those for
  \<open>restricted\<close>, each group in declaration order. A message names the token and the
  category's full valid set. The list is empty exactly when every declared token is
  whitelisted. The declaration \<open>{general: ["bad1"], device: ["bad2"]}\<close> gives two
  messages, the one for \<open>general\<close> first.
\<close>

theorem validateCapabilities_all_violations:
  "validateCapabilities config =
     map (\<lambda>cap. ''Invalid general capability: '' @ [CHR 0x22] @ cap @ [CHR 0x22]
                  @ ''. Valid: '' @ joinWith '', '' GENERAL_CAPABILITIES)
       (filter (\<lambda>cap. cap \<notin> set GENERAL_CAPABILITIES) (declared (general config))) @
     map (\<lambda>cap. ''Invalid device capability: '' @ [CHR 0x22] @ cap @ [CHR 0x22]
                  @ ''. Valid: '' @ joinWith '', '' DEVICE_CAPABILITIES)
       (filter (\<lambda>cap. cap \<notin> set DEVICE_CAPABILITIES) (declared (device config))) @
     map (\<lambda>cap. ''Invalid restricted capability: '' @ [CHR 0x22] @ cap @ [CHR 0x22]
                  @ ''. Valid: '' @ joinWith '', '' RESTRICTED_CAPABILITIES)
       (filter (\<lambda>cap. cap \<notin> set RESTRICTED_CAPABILITIES) (declared (restricted config))) \<and>
   (validateCapabilities config = [] \<longleftrightarrow>
      set (declared (general config)) \<subseteq> set GENERAL_CAPABILITIES \<and>
      set (declared (device config)) \<subseteq> set DEVICE_CAPABILITIES \<and>
      set (declared (restricted config)) \<subseteq> set RESTRICTED_CAPABILITIES) \<and>
   validateCapabilities \<lparr>general = Some [''bad1''], device = Some [''bad2''], restricted = None\<rparr> =
     [''Invalid general capability: '' @ [CHR 0x22] @ ''bad1'' @ [CHR 0x22] @
        ''. Valid: internetClient, internetClientServer, privateNetworkClientServer, allJoyn, codeGeneration'',
      ''Invalid device capability: '' @ [CHR 0x22] @ ''bad2'' @ [CHR 0x22] @
        ''. Valid: webcam, microphone, location, proximity, bluetooth, serialcommunication, usb, humaninterfacedevice, pointOfService, lowLevelDevices, gazeInput, radios'']"
proof (intro conjI)
  show "validateCapabilities config = [] \<longleftrightarrow>
      set (declared (general config)) \<subseteq> set GENERAL_CAPABILITIES \<and>
      set (declared (device config)) \<subseteq> set DEVICE_CAPABILITIES \<and>
      set (declared (restricted config)) \<subseteq> set RESTRICTED_CAPABILITIES"
    unfolding validateCapabilities_eq by (simp add: filter_out_empty)
qed (rule validateCapabilities_eq, rule validate_example)

theorem validateCapabilities_all_violations_witness:
  "set (declared (general \<lparr>general = Some [''internetClient''], device = Some [''webcam''],
                           restricted = None\<rparr>)) \<subseteq> set GENERAL_CAPABILITIES \<and>
   validateCapabilities \<lparr>general = Some [''internetClient''], device = Some [''webcam''],
                         restricted = None\<rparr> = []"
proof -
  let ?config = "\<lparr>general = Some [''internetClient''], device = Some [''webcam''],
                  restricted = None\<rparr>"
  have g: "set (declared (general ?config)) \<subseteq> set GENERAL_CAPABILITIES"
    by (simp add: declared_def GENERAL_CAPABILITIES_def)
  have d: "set (declared (device ?config)) \<subseteq> set DEVICE_CAPABILITIES"
    by (simp add: declared_def DEVICE_CAPABILITIES_def)
  have r: "set (declared (restricted ?config)) \<subseteq> set RESTRICTED_CAPABILITIES"
    by (simp add: declared_def)
  from validateCapabilities_all_violations [of ?config] g d r
  have "validateCapabilities ?config = []" by blast
  with g show ?thesis by blast
qed

section \<open>Properties of the capability rendering\<close>

lemma pushEach_eq:
  "pushEach opening closing caps xs = caps @ map (\<lambda>cap. opening @ cap @ closing) xs"
  by (induction xs arbitrary: caps) simp_all

lemma pushEach_declared:
  "(case xs of Some cs \<Rightarrow> pushEach opening closing caps cs | None \<Rightarrow> caps) =
     caps @ map (\<lambda>cap. opening @ cap @ closing) (declared xs)"
  by (cases xs) (simp_all add: declared_def pushEach_eq)

lemma joinWith_Cons: "joinWith sep (x # xs) = x @ concat (map (\<lambda>y. sep @ y) xs)"
  by (induction xs arbitrary: x) simp_all

lemma generateCapabilities_eq:
  "generateCapabilities config =
     joinWith [CHR 0x0A]
       ((''    <rescap:Capability Name='' @ [CHR 0x22] @ ''runFullTrust'' @ [CHR 0x22] @ '' />'')
        # map (\<lambda>cap. ''    <Capability Name='' @ [CHR 0x22] @ cap @ [CHR 0x22] @ '' />'')
            (declared (general config))
        @ map (\<lambda>cap. ''    <DeviceCapability Name='' @ [CHR 0x22] @ cap @ [CHR 0x22] @ '' />'')
            (declared (device config))
        @ map (\<lambda>cap. ''    <rescap:Capability Name='' @ [CHR 0x22] @ cap @ [CHR 0x22] @ '' />'')
            (declared (restricted config)))"
  unfolding generateCapabilities_def Let_def pushEach_declared by simp

text \<open>
  C6. For every capabilities configuration the rendered block contains the
  \<open>runFullTrust\<close> declaration, whatever the user declared: it is the first line, followed
  by one element per declared token. When all three category lists are empty or absent,
  the block is exactly that one declaration and nothing else.
\<close>

theorem generateCapabilities_full_trust:
  "generateCapabilities config =
     joinWith [CHR 0x0A]
       ((''    <rescap:Capability Name='' @ [CHR 0x22] @ ''runFullTrust'' @ [CHR 0x22] @ '' />'')
        # map (\<lambda>cap. ''    <Capability Name='' @ [CHR 0x22] @ cap @ [CHR 0x22] @ '' />'')
            (declared (general config))
        @ map (\<lambda>cap. ''    <DeviceCapability Name='' @ [CHR 0x22] @ cap @ [CHR 0x22] @ '' />'')
            (declared (device config))
        @ map (\<lambda>cap. ''    <rescap:Capability Name='' @ [CHR 0x22] @ cap @ [CHR 0x22] @ '' />'')
            (declared (restricted config))) \<and>
   (\<exists>rest. generateCapabilities config =
      ''    <rescap:Capability Name='' @ [CHR 0x22] @ ''runFullTrust'' @ [CHR 0x22] @ '' />''
        @ rest) \<and>
   (declared (general config) = [] \<and> declared (device config) = [] \<and>
    declared (restricted config) = [] \<longrightarrow>
      generateCapabilities config =
        ''    <rescap:Capability Name='' @ [CHR 0x22] @ ''runFullTrust'' @ [CHR 0x22] @ '' />'')"
proof (intro conjI impI)
  show "\<exists>rest. generateCapabilities config =
      ''    <rescap:Capability Name='' @ [CHR 0x22] @ ''runFullTrust'' @ [CHR 0x22] @ '' />''
        @ rest"
    unfolding generateCapabilities_eq joinWith_Cons by simp
next
  assume "declared (general config) = [] \<and> declared (device config) = [] \<and>
    declared (restricted config) = []"
  then show "generateCapabilities config =
        ''    <rescap:Capability Name='' @ [CHR 0x22] @ ''runFullTrust'' @ [CHR 0x22] @ '' />''"
    unfolding generateCapabilities_eq by simp
qed (rule generateCapabilities_eq)

theorem generateCapabilities_full_trust_witness:
  "declared (general \<lparr>general = Some [], device = None, restricted = None\<rparr>) = [] \<and>
   generateCapabilities \<lparr>general = Some [], device = None, restricted = None\<rparr> =
     ''    <rescap:Capability Name='' @ [CHR 0x22] @ ''runFullTrust'' @ [CHR 0x22] @ '' />''"
proof -
  let ?config = "\<lparr>general = Some [], device = None, restricted = None\<rparr>"
  have h: "declared (general ?config) = [] \<and> declared (device ?config) = [] \<and>
    declared (restricted ?config) = []"
    by (simp add: declared_def)
  from generateCapabilities_full_trust [of ?config] h
  have "generateCapabilities ?config =
     ''    <rescap:Capability Name='' @ [CHR 0x22] @ ''runFullTrust'' @ [CHR 0x22] @ '' />''"
    by blast
  with h show ?thesis by blast
qed

section \<open>Properties of the pseudo-CLSID\<close>

lemma hexDigit_lower: "d < 16 \<Longrightarrow> hexDigit d \<in> set ''0123456789abcdef''"
  unfolding hexDigit_def by (rule nth_mem) simp

lemma toString16_chars: "set (toString16 n) \<subseteq> set ''0123456789abcdef''"
proof (induction n rule: toString16.induct)
  case (1 n)
  show ?case
  proof (cases "n < 16")
    case True
    then show ?thesis
      using hexDigit_lower [of n] by (subst toString16.simps) simp
  next
    case False
    have "n mod 16 < 16" by simp
    then have "hexDigit (n mod 16) \<in> set ''0123456789abcdef''"
      by (rule hexDigit_lower)
    with False 1 show ?thesis
      by (subst toString16.simps) simp
  qed
qed

lemma upperChar_digits: "map upperChar ''0123456789abcdef'' = ''0123456789ABCDEF''"
  by code_simp

lemma upperChar_hex:
  assumes "c \<in> set ''0123456789abcdef''"
  shows "upperChar c \<in> set ''0123456789ABCDEF''"
proof -
  from assms have "upperChar c \<in> set (map upperChar ''0123456789abcdef'')"
    by (simp only: set_map) (rule imageI)
  then show ?thesis by (simp only: upperChar_digits)
qed

lemma upperChar_punct: "map upperChar ''{-}'' = ''{-}''"
  by code_simp

lemma set_padStart: "set (padStart n c s) \<subseteq> insert c (set s)"
  by (auto simp: padStart_def)

lemma length_padStart: "n \<le> length (padStart n c s)"
  by (simp add: padStart_def)

lemma set_sliceString: "set (sliceString a b s) \<subseteq> set s"
  unfolding sliceString_def by (rule subset_trans [OF set_take_subset set_drop_subset])

lemma length_sliceString: "b \<le> length s \<Longrightarrow> length (sliceString a b s) = b - a"
  by (simp add: sliceString_def)

text \<open>A slice of a zero-padded hexadecimal numeral, raised to upper case, holds
  upper-case hexadecimal digits only, and is complete when it ends within the padding
  width.\<close>

lemma group_chars:
  "set (map upperChar (sliceString a b (padStart n (CHR ''0'') (toString16 m))))
     \<subseteq> set ''0123456789ABCDEF''"
proof -
  have 1: "set (sliceString a b (padStart n (CHR ''0'') (toString16 m)))
             \<subseteq> set (padStart n (CHR ''0'') (toString16 m))"
    by (rule set_sliceString)
  have 2: "set (padStart n (CHR ''0'') (toString16 m)) \<subseteq> insert (CHR ''0'') (set (toString16 m))"
    by (rule set_padStart)
  have 3: "CHR ''0'' \<in> set ''0123456789abcdef''"
    by simp
  have 4: "set (toString16 m) \<subseteq> set ''0123456789abcdef''"
    by (rule toString16_chars)
  from 1 2 3 4 have "set (sliceString a b (padStart n (CHR ''0'') (toString16 m)))
                       \<subseteq> set ''0123456789abcdef''"
    by blast
  then have "upperChar ` set (sliceString a b (padStart n (CHR ''0'') (toString16 m)))
               \<subseteq> set ''0123456789ABCDEF''"
    using upperChar_hex by blast
  then show ?thesis by (simp only: set_map)
qed

lemma group_length:
  "b \<le> n \<Longrightarrow> length (sliceString a b (padStart n c s)) = b - a"
  using length_padStart [of n c s] by (simp add: length_sliceString)

lemma upperHex_iff: "upperHex s \<longleftrightarrow> set s \<subseteq> set ''0123456789ABCDEF''"
  unfolding upperHex_def list_all_iff by blast

lemma clsidShape_groups:
  assumes "length g1 = 8" "length g2 = 4" "length g3 = 4" "length g4 = 4" "length g5 = 12"
    and "upperHex g1" "upperHex g2" "upperHex g3" "upperHex g4" "upperHex g5"
  shows "clsidShape (''{'' @ g1 @ ''-'' @ g2 @ ''-'' @ g3 @ ''-'' @ g4 @ ''-'' @ g5 @ ''}'')"
  using assms by (simp add: clsidShape_def sliceString_def)

lemma generateClsid_groups:
  "generateClsid seed =
     ''{'' @ map upperChar (sliceString 0 8 (padStart 8 (CHR ''0'') (toString16 (nat \<bar>hashLoop 0 seed\<bar>))))
     @ ''-'' @ map upperChar (sliceString 0 4 (padStart 8 (CHR ''0'') (toString16 (nat \<bar>hashLoop 0 seed * 31\<bar>))))
     @ ''-'' @ map upperChar (sliceString 4 8 (padStart 8 (CHR ''0'') (toString16 (nat \<bar>hashLoop 0 seed * 31\<bar>))))
     @ ''-'' @ map upperChar (sliceString 0 4 (padStart 8 (CHR ''0'') (toString16 (nat \<bar>hashLoop 0 seed * 37\<bar>))))
     @ ''-'' @ map upperChar (sliceString 0 12 (padStart 12 (CHR ''0'') (toString16 (nat \<bar>hashLoop 0 seed * 41\<bar>))))
     @ ''}''"
  using upperChar_punct by (simp add: generateClsid_def Let_def toUpperCase_def)

lemma generateClsid_example: "generateClsid [97] = ''{00000061-0000-0BBF-0000-000000000F89}''"
  by code_simp

text \<open>
  C8. For every seed, \<open>generateClsid\<close> is deterministic (equal seeds give the same text),
  and its result has the canonical shape: an opening brace, five groups of 8, 4, 4, 4 and
  12 upper-case hexadecimal digits separated by hyphens, and a closing brace.
\<close>

theorem generateClsid_shape:
  "(seed = seed' \<longrightarrow> generateClsid seed = generateClsid seed') \<and>
   (\<exists>g1 g2 g3 g4 g5.
      generateClsid seed = ''{'' @ g1 @ ''-'' @ g2 @ ''-'' @ g3 @ ''-'' @ g4 @ ''-'' @ g5 @ ''}'' \<and>
      length g1 = 8 \<and> length g2 = 4 \<and> length g3 = 4 \<and> length g4 = 4 \<and> length g5 = 12 \<and>
      set (g1 @ g2 @ g3 @ g4 @ g5) \<subseteq> set ''0123456789ABCDEF'') \<and>
   clsidShape (generateClsid seed)"
proof -
  let ?h = "hashLoop 0 seed"
  let ?g1 = "map upperChar (sliceString 0 8 (padStart 8 (CHR ''0'') (toString16 (nat \<bar>?h\<bar>))))"
  let ?g2 = "map upperChar (sliceString 0 4 (padStart 8 (CHR ''0'') (toString16 (nat \<bar>?h * 31\<bar>))))"
  let ?g3 = "map upperChar (sliceString 4 8 (padStart 8 (CHR ''0'') (toString16 (nat \<bar>?h * 31\<bar>))))"
  let ?g4 = "map upperChar (sliceString 0 4 (padStart 8 (CHR ''0'') (toString16 (nat \<bar>?h * 37\<bar>))))"
  let ?g5 = "map upperChar (sliceString 0 12 (padStart 12 (CHR ''0'') (toString16 (nat \<bar>?h * 41\<bar>))))"
  have eq: "generateClsid seed
              = ''{'' @ ?g1 @ ''-'' @ ?g2 @ ''-'' @ ?g3 @ ''-'' @ ?g4 @ ''-'' @ ?g5 @ ''}''"
    by (rule generateClsid_groups)
  have len: "length ?g1 = 8" "length ?g2 = 4" "length ?g3 = 4" "length ?g4 = 4" "length ?g5 = 12"
    by (simp_all add: group_length)
  have hex: "set ?g1 \<subseteq> set ''0123456789ABCDEF''" "set ?g2 \<subseteq> set ''0123456789ABCDEF''"
    "set ?g3 \<subseteq> set ''0123456789ABCDEF''" "set ?g4 \<subseteq> set ''0123456789ABCDEF''"
    "set ?g5 \<subseteq> set ''0123456789ABCDEF''"
    by (rule group_chars)+
  have all: "set (?g1 @ ?g2 @ ?g3 @ ?g4 @ ?g5) \<subseteq> set ''0123456789ABCDEF''"
    using hex by (simp only: set_append Un_subset_iff)
  have shape: "clsidShape (generateClsid seed)"
    unfolding eq using len hex by (intro clsidShape_groups) (simp_all only: upperHex_iff)
  from eq len all have "\<exists>g1 g2 g3 g4 g5.
      generateClsid seed = ''{'' @ g1 @ ''-'' @ g2 @ ''-'' @ g3 @ ''-'' @ g4 @ ''-'' @ g5 @ ''}'' \<and>
      length g1 = 8 \<and> length g2 = 4 \<and> length g3 = 4 \<and> length g4 = 4 \<and> length g5 = 12 \<and>
      set (g1 @ g2 @ g3 @ g4 @ g5) \<subseteq> set ''0123456789ABCDEF''"
    by blast
  with shape show ?thesis by blast
qed

theorem generateClsid_shape_witness:
  "generateClsid [97] = ''{00000061-0000-0BBF-0000-000000000F89}'' \<and>
   clsidShape ''{00000061-0000-0BBF-0000-000000000F89}''"
proof -
  have "clsidShape (generateClsid [97])"
    using generateClsid_shape [of "[97]" "[97]"] by blast
  then show ?thesis by (simp add: generateClsid_example)
qed

section \<open>The merged configuration: publisher fields\<close>

text \<open>
  \<open>build_config\<close> has one failure, the invalid capabilities; otherwise the merged
  configuration holds the \<open>publisher\<close> and \<open>publisherDisplayName\<close> of the bundle
  configuration as they are, present or not.
\<close>

lemma build_config_bundle_fields:
  "(case capabilities bundleConfig of Some caps \<Rightarrow> validateCapabilities caps = [] | None \<Rightarrow> True)
   \<Longrightarrow> \<exists>config. build_config tauriConfig bundleConfig = Inr config \<and>
         BundleConfig.publisher config = BundleConfig.publisher bundleConfig \<and>
         publisherDisplayName config = publisherDisplayName bundleConfig"
  by (auto simp: build_config_def Let_def split: option.splits)

text \<open>
  C1. The claim: \<open>publisher\<close> is the packaging configuration's when present, otherwise
  the application configuration's bundle publisher, and resolution fails with
  "Publisher is required" when both are absent. Here \<open>build_config\<close> is evaluated on a
  bundle configuration without publisher, first with an application configuration that
  has no publisher either, then with one whose bundle names \<open>CN=FromTauri\<close>: both runs
  succeed, with no publisher in the merged configuration.
\<close>

theorem build_config_publisher_unresolved:
  "build_config
     \<lparr>productName = Some ''TestApp'', version = Some ''1.0.0'',
      identifier = Some ''com.example.testapp'', bundle = None\<rparr>
     \<lparr>BundleConfig.publisher = None, publisherDisplayName = Some ''Test Company'',
      resourceIndex = None,
      capabilities = Some \<lparr>general = Some [''internetClient''], device = None, restricted = None\<rparr>,
      extensions = None, signing = None\<rparr>
   = Inr \<lparr>BundleConfig.publisher = None, publisherDisplayName = Some ''Test Company'',
          resourceIndex = None,
          capabilities = Some \<lparr>general = Some [''internetClient''], device = None, restricted = None\<rparr>,
          extensions = None, signing = None,
          displayName = ''TestApp'', version = ''1.0.0.0'', description = [],
          identifier = ''com.example.testapp''\<rparr> \<and>
   build_config
     \<lparr>productName = Some ''TestApp'', version = Some ''1.0.0'',
      identifier = Some ''com.example.testapp'',
      bundle = Some \<lparr>icon = None, shortDescription = None, longDescription = None,
                     publisher = Some ''CN=FromTauri'', resources = None, windows = None\<rparr>\<rparr>
     \<lparr>BundleConfig.publisher = None, publisherDisplayName = Some ''Test Company'',
      resourceIndex = None,
      capabilities = Some \<lparr>general = Some [''internetClient''], device = None, restricted = None\<rparr>,
      extensions = None, signing = None\<rparr>
   = Inr \<lparr>BundleConfig.publisher = None, publisherDisplayName = Some ''Test Company'',
          resourceIndex = None,
          capabilities = Some \<lparr>general = Some [''internetClient''], device = None, restricted = None\<rparr>,
          extensions = None, signing = None,
          displayName = ''TestApp'', version = ''1.0.0.0'', description = [],
          identifier = ''com.example.testapp''\<rparr>"
  by code_simp

text \<open>
  C7. The claim: when the packaging configuration gives a publisher and no
  \<open>publisherDisplayName\<close>, the resolved \<open>publisherDisplayName\<close> is the publisher string.
  Here \<open>build_config\<close> is evaluated on the bundle configuration
  \<open>{publisher: "CN=TestCompany", capabilities: {general: ["internetClient"]}}\<close>: the
  merged configuration has the publisher and no \<open>publisherDisplayName\<close>.
\<close>

theorem build_config_display_name_unresolved:
  "build_config
     \<lparr>productName = Some ''TestApp'', version = Some ''1.0.0'',
      identifier = Some ''com.example.testapp'', bundle = None\<rparr>
     \<lparr>BundleConfig.publisher = Some ''CN=TestCompany'', publisherDisplayName = None,
      resourceIndex = None,
      capabilities = Some \<lparr>general = Some [''internetClient''], device = None, restricted = None\<rparr>,
      extensions = None, signing = None\<rparr>
   = Inr \<lparr>BundleConfig.publisher = Some ''CN=TestCompany'', publisherDisplayName = None,
          resourceIndex = None,
          capabilities = Some \<lparr>general = Some [''internetClient''], device = None, restricted = None\<rparr>,
          extensions = None, signing = None,
          displayName = ''TestApp'', version = ''1.0.0.0'', description = [],
          identifier = ''com.example.testapp''\<rparr>"
  by code_simp

section \<open>Properties of the manifest generation\<close>

text \<open>The extension block reads the extensions, the display name and the identifier of
  the configuration, nothing else.\<close>

lemma generateExtensions_cong:
  assumes "BundleConfig.extensions c = BundleConfig.extensions c'"
    and "MergedConfig.displayName c = MergedConfig.displayName c'"
    and "MergedConfig.identifier c = MergedConfig.identifier c'"
  shows "generateExtensions t c = generateExtensions t c'"
  unfolding generateExtensions_def by (simp only: assms)

lemma generateExtensions_capabilities:
  "generateExtensions t (config\<lparr>capabilities := caps\<rparr>) = generateExtensions t config"
  by (rule generateExtensions_cong) simp_all


lemma manifestVariables_capabilities:
  "manifestVariables t (config\<lparr>capabilities := caps\<rparr>) arch minVersion =
     butlast (manifestVariables t config arch minVersion)
     @ [(''CAPABILITIES'',
         generateCapabilities (case caps of Some c \<Rightarrow> c | None \<Rightarrow> DEFAULT_CAPABILITIES))]"
  unfolding manifestVariables_def generateExtensions_capabilities by simp

lemma replaceTemplateVariables_append:
  "replaceTemplateVariables template (vars @ vars') =
     replaceTemplateVariables (replaceTemplateVariables template vars) vars'"
  by (induction template vars rule: replaceTemplateVariables.induct) simp_all


lemma replaceAll_length_mono:
  "length v1 \<le> length v2 \<Longrightarrow> length (replaceAll p v1 s) \<le> length (replaceAll p v2 s)"
  by (induction p v1 s rule: replaceAll.induct) auto

lemma replaceAll_length_strict:
  "length v1 < length v2 \<Longrightarrow> p \<noteq> [] \<Longrightarrow> s = pre @ p @ post \<Longrightarrow>
     length (replaceAll p v1 s) < length (replaceAll p v2 s)"
proof (induction p v1 s arbitrary: pre rule: replaceAll.induct)
  case (1 pat rep)
  then show ?case by simp
next
  case (2 pat rep c cs)
  show ?case
  proof (cases "take (length pat) (c # cs) = pat")
    case True
    have "length (replaceAll pat rep (drop (length pat) (c # cs)))
            \<le> length (replaceAll pat v2 (drop (length pat) (c # cs)))"
      using "2.prems"(1) by (intro replaceAll_length_mono) simp
    with True "2.prems"(1,2) show ?thesis by simp
  next
    case False
    with "2.prems"(3) obtain pre' where "pre = c # pre'"
      by (cases pre) auto
    with "2.prems"(3) have "cs = pre' @ pat @ post" by simp
    with False "2.prems"(1,2) "2.IH"(2) [of pre'] show ?thesis by simp
  qed
qed

lemma match_agree:
  assumes "take (length p) (r @ post) = p"
  shows "agree p r"
proof (cases "length p \<le> length r")
  case True
  with assms have "take (length p) r = p" by simp
  moreover from True have "take (length r) p = p" by simp
  ultimately show ?thesis by (simp add: agree_def)
next
  case False
  with assms have "r @ take (length p - length r) post = p" by simp
  then have "take (length r) p = r" by (metis append_eq_conv_conj)
  moreover from False have "take (length p) r = r" by simp
  ultimately show ?thesis by (simp add: agree_def)
qed

lemma replaceAll_copy:
  "(\<And>j. j < length r \<Longrightarrow> \<not> agree p (drop j r)) \<Longrightarrow>
     replaceAll p v (r @ post) = r @ replaceAll p v post"
proof (induction r)
  case Nil
  then show ?case by simp
next
  case (Cons c r)
  have "\<not> agree p (c # r)"
    using Cons.prems [of 0] by simp
  then have nomatch: "take (length p) ((c # r) @ post) \<noteq> p"
    using match_agree [of p "c # r" post] by blast
  have "\<not> agree p (drop j r)" if "j < length r" for j
    using Cons.prems [of "Suc j"] that by simp
  then have "replaceAll p v (r @ post) = r @ replaceAll p v post"
    by (rule Cons.IH)
  with nomatch show ?case by simp
qed

lemma clearOf_end: "clearOf p q \<Longrightarrow> j < length q \<Longrightarrow> \<not> agree p (drop j q)"
  by (simp add: clearOf_def list_all_iff)

lemma clearOf_overlap: "clearOf p q \<Longrightarrow> 0 < k \<Longrightarrow> k < length p \<Longrightarrow> \<not> agree (drop k p) q"
  by (simp add: clearOf_def list_all_iff)

lemma replaceAll_keeps:
  assumes "clearOf p q"
  shows "\<exists>pre' post'. replaceAll p v (pre @ q @ post) = pre' @ q @ post'"
proof (induction "length pre" arbitrary: pre rule: less_induct)
  case less
  show ?case
  proof (cases pre)
    case Nil
    have "replaceAll p v (q @ post) = q @ replaceAll p v post"
      using clearOf_end [OF assms] by (rule replaceAll_copy)
    with Nil have "replaceAll p v (pre @ q @ post) = [] @ q @ replaceAll p v post"
      by simp
    then show ?thesis by blast
  next
    case (Cons c pre')
    show ?thesis
    proof (cases "p \<noteq> [] \<and> take (length p) (pre @ q @ post) = p")
      case True
      have fits: "length p \<le> length pre"
      proof (rule ccontr)
        assume "\<not> length p \<le> length pre"
        then have k: "length pre < length p" by simp
        have "take (length p) (pre @ (q @ post)) = pre @ take (length p - length pre) (q @ post)"
          using k by simp
        with True have "pre @ take (length p - length pre) (q @ post) = p"
          by simp
        then have "take (length p - length pre) (q @ post) = drop (length pre) p"
          by (metis append_eq_conv_conj)
        then have "take (length (drop (length pre) p)) (q @ post) = drop (length pre) p"
          by simp
        then have "agree (drop (length pre) p) q"
          by (rule match_agree)
        moreover have "0 < length pre" using Cons by simp
        ultimately show False
          using clearOf_overlap [OF assms _ k] by blast
      qed
      then have rest: "drop (length p) (pre @ q @ post) = drop (length p) pre @ q @ post"
        by simp
      from True have "0 < length p" by simp
      with Cons have shorter: "length (drop (length p) pre) < length pre"
        by simp
      obtain pre'' post'' where
        "replaceAll p v (drop (length p) pre @ q @ post) = pre'' @ q @ post''"
        using less [OF shorter] by blast
      with True Cons rest have "replaceAll p v (pre @ q @ post) = (v @ pre'') @ q @ post''"
        by simp
      then show ?thesis by blast
    next
      case False
      have "length pre' < length pre" using Cons by simp
      then obtain pre'' post'' where
        "replaceAll p v (pre' @ q @ post) = pre'' @ q @ post''"
        using less by blast
      with False Cons have "replaceAll p v (pre @ q @ post) = (c # pre'') @ q @ post''"
        by auto
      then show ?thesis by blast
    qed
  qed
qed


lemma replaceTemplateVariables_keeps:
  "list_all (\<lambda>(k, v). clearOf (placeholder k) q) vars \<Longrightarrow>
     \<exists>pre' post'. replaceTemplateVariables (pre @ q @ post) vars = pre' @ q @ post'"
proof (induction vars arbitrary: pre post)
  case Nil
  then show ?case by auto
next
  case (Cons kv vars)
  obtain k v where kv: "kv = (k, v)" by (cases kv)
  with Cons.prems have "clearOf (placeholder k) q" by simp
  then obtain pre1 post1 where "replaceAll (placeholder k) v (pre @ q @ post) = pre1 @ q @ post1"
    using replaceAll_keeps by blast
  moreover from Cons.prems have "list_all (\<lambda>(k, v). clearOf (placeholder k) q) vars"
    by simp
  ultimately show ?case
    using Cons.IH [of pre1 post1] kv by simp
qed

lemma clear_keys:
  "clearOf (placeholder ''PACKAGE_NAME'') ''{{CAPABILITIES}}''"
  "clearOf (placeholder ''PUBLISHER'') ''{{CAPABILITIES}}''"
  "clearOf (placeholder ''VERSION'') ''{{CAPABILITIES}}''"
  "clearOf (placeholder ''ARCH'') ''{{CAPABILITIES}}''"
  "clearOf (placeholder ''DISPLAY_NAME'') ''{{CAPABILITIES}}''"
  "clearOf (placeholder ''PUBLISHER_DISPLAY_NAME'') ''{{CAPABILITIES}}''"
  "clearOf (placeholder ''MIN_VERSION'') ''{{CAPABILITIES}}''"
  "clearOf (placeholder ''EXECUTABLE'') ''{{CAPABILITIES}}''"
  "clearOf (placeholder ''DESCRIPTION'') ''{{CAPABILITIES}}''"
  "clearOf (placeholder ''EXTENSIONS'') ''{{CAPABILITIES}}''"
  by code_simp+

lemma earlier_variables_clear:
  "list_all (\<lambda>(k, v). clearOf (placeholder k) ''{{CAPABILITIES}}'')
     (butlast (manifestVariables t config arch minVersion))"
  by (simp add: manifestVariables_def clear_keys)

lemma generateCapabilities_default:
  "generateCapabilities DEFAULT_CAPABILITIES =
     ''    <rescap:Capability Name='' @ [CHR 0x22] @ ''runFullTrust'' @ [CHR 0x22] @ '' />''
     @ [CHR 0x0A] @ ''    <Capability Name='' @ [CHR 0x22] @ ''internetClient'' @ [CHR 0x22] @ '' />''"
  by code_simp

lemma generateCapabilities_empty:
  "declared (general caps) = [] \<Longrightarrow> declared (device caps) = [] \<Longrightarrow>
   declared (restricted caps) = [] \<Longrightarrow>
     generateCapabilities caps =
       ''    <rescap:Capability Name='' @ [CHR 0x22] @ ''runFullTrust'' @ [CHR 0x22] @ '' />''"
  unfolding generateCapabilities_eq by simp

lemma capabilities_variable:
  "map_of (manifestVariables t config arch minVersion) ''CAPABILITIES'' =
     Some (generateCapabilities
             (case capabilities config of Some caps \<Rightarrow> caps | None \<Rightarrow> DEFAULT_CAPABILITIES))"
  by (simp add: manifestVariables_def)

lemma generateManifest_capabilities:
  "generateManifest t (Some template) (config\<lparr>capabilities := caps\<rparr>) arch minVersion =
     Inr (replaceAll ''{{CAPABILITIES}}''
            (generateCapabilities (case caps of Some c \<Rightarrow> c | None \<Rightarrow> DEFAULT_CAPABILITIES))
            (replaceTemplateVariables template
               (butlast (manifestVariables t config arch minVersion))))"
  unfolding generateManifest_def Let_def manifestVariables_capabilities
    replaceTemplateVariables_append
  by (simp add: placeholder_def)

text \<open>
  C10. In manifest generation, a merged configuration without a \<open>capabilities\<close> field has
  its \<open>CAPABILITIES\<close> variable rendered from the default capabilities: \<open>runFullTrust\<close>
  and the general token \<open>internetClient\<close>. A configuration whose \<open>capabilities\<close> object
  is present but declares nothing renders \<open>runFullTrust\<close> alone. So the two give
  different manifest texts, for every template that holds the \<open>CAPABILITIES\<close>
  placeholder.
\<close>

theorem generateManifest_absent_capabilities:
  "map_of (manifestVariables t (config\<lparr>capabilities := None\<rparr>) arch minVersion) ''CAPABILITIES'' =
     Some (''    <rescap:Capability Name='' @ [CHR 0x22] @ ''runFullTrust'' @ [CHR 0x22] @ '' />''
           @ [CHR 0x0A]
           @ ''    <Capability Name='' @ [CHR 0x22] @ ''internetClient'' @ [CHR 0x22] @ '' />'') \<and>
   (declared (general caps) = [] \<and> declared (device caps) = [] \<and>
    declared (restricted caps) = [] \<longrightarrow>
      map_of (manifestVariables t (config\<lparr>capabilities := Some caps\<rparr>) arch minVersion)
          ''CAPABILITIES'' =
        Some (''    <rescap:Capability Name='' @ [CHR 0x22] @ ''runFullTrust'' @ [CHR 0x22]
              @ '' />'') \<and>
      (\<forall>pre post.
         generateManifest t (Some (pre @ ''{{CAPABILITIES}}'' @ post))
             (config\<lparr>capabilities := None\<rparr>) arch minVersion
           \<noteq> generateManifest t (Some (pre @ ''{{CAPABILITIES}}'' @ post))
               (config\<lparr>capabilities := Some caps\<rparr>) arch minVersion))"
proof (intro conjI impI allI)
  show "map_of (manifestVariables t (config\<lparr>capabilities := None\<rparr>) arch minVersion)
          ''CAPABILITIES'' =
     Some (''    <rescap:Capability Name='' @ [CHR 0x22] @ ''runFullTrust'' @ [CHR 0x22] @ '' />''
           @ [CHR 0x0A]
           @ ''    <Capability Name='' @ [CHR 0x22] @ ''internetClient'' @ [CHR 0x22] @ '' />'')"
    unfolding capabilities_variable by (simp add: generateCapabilities_default)
next
  assume empty: "declared (general caps) = [] \<and> declared (device caps) = [] \<and>
    declared (restricted caps) = []"
  then have caps: "generateCapabilities caps =
      ''    <rescap:Capability Name='' @ [CHR 0x22] @ ''runFullTrust'' @ [CHR 0x22] @ '' />''"
    by (simp add: generateCapabilities_empty)
  show "map_of (manifestVariables t (config\<lparr>capabilities := Some caps\<rparr>) arch minVersion)
          ''CAPABILITIES'' =
        Some (''    <rescap:Capability Name='' @ [CHR 0x22] @ ''runFullTrust'' @ [CHR 0x22]
              @ '' />'')"
    unfolding capabilities_variable by (simp add: caps)
  fix pre post
  let ?vars = "butlast (manifestVariables t config arch minVersion)"
  obtain pre' post' where occ:
    "replaceTemplateVariables (pre @ ''{{CAPABILITIES}}'' @ post) ?vars
       = pre' @ ''{{CAPABILITIES}}'' @ post'"
    using replaceTemplateVariables_keeps [OF earlier_variables_clear] by blast
  have "length (generateCapabilities caps) < length (generateCapabilities DEFAULT_CAPABILITIES)"
    unfolding caps generateCapabilities_default by simp
  then have "length (replaceAll ''{{CAPABILITIES}}'' (generateCapabilities caps)
                       (replaceTemplateVariables (pre @ ''{{CAPABILITIES}}'' @ post) ?vars))
           < length (replaceAll ''{{CAPABILITIES}}'' (generateCapabilities DEFAULT_CAPABILITIES)
                       (replaceTemplateVariables (pre @ ''{{CAPABILITIES}}'' @ post) ?vars))"
    using occ by (intro replaceAll_length_strict) simp_all
  then show "generateManifest t (Some (pre @ ''{{CAPABILITIES}}'' @ post))
             (config\<lparr>capabilities := None\<rparr>) arch minVersion
           \<noteq> generateManifest t (Some (pre @ ''{{CAPABILITIES}}'' @ post))
               (config\<lparr>capabilities := Some caps\<rparr>) arch minVersion"
    unfolding generateManifest_capabilities by auto
qed


theorem generateManifest_absent_capabilities_witness:
  "declared (general \<lparr>general = None, device = None, restricted = None\<rparr>) = [] \<and>
   generateManifest (\<lambda>name. []) (Some ''<Capabilities>{{CAPABILITIES}}</Capabilities>'')
       \<lparr>BundleConfig.publisher = Some ''CN=TestCompany'',
        publisherDisplayName = Some ''Test Company'', resourceIndex = None,
        capabilities = None, extensions = None, signing = None,
        displayName = ''Test App'', version = ''1.0.0.0'', description = ''A test application'',
        identifier = ''com.example.testapp''\<rparr> ''x64'' ''10.0.17763.0''
     \<noteq> generateManifest (\<lambda>name. []) (Some ''<Capabilities>{{CAPABILITIES}}</Capabilities>'')
         \<lparr>BundleConfig.publisher = Some ''CN=TestCompany'',
          publisherDisplayName = Some ''Test Company'', resourceIndex = None,
          capabilities = Some \<lparr>general = None, device = None, restricted = None\<rparr>,
          extensions = None, signing = None,
          displayName = ''Test App'', version = ''1.0.0.0'', description = ''A test application'',
          identifier = ''com.example.testapp''\<rparr> ''x64'' ''10.0.17763.0''"
proof -
  let ?caps = "\<lparr>general = None, device = None, restricted = None\<rparr>"
  let ?config = "\<lparr>BundleConfig.publisher = Some ''CN=TestCompany'',
        publisherDisplayName = Some ''Test Company'', resourceIndex = None,
        capabilities = None, extensions = None, signing = None,
        displayName = ''Test App'', version = ''1.0.0.0'', description = ''A test application'',
        identifier = ''com.example.testapp''\<rparr>"
  have h: "declared (general ?caps) = [] \<and> declared (device ?caps) = [] \<and>
    declared (restricted ?caps) = []"
    by (simp add: declared_def)
  from generateManifest_absent_capabilities [of "(\<lambda>name. [])" ?config "''x64''" "''10.0.17763.0''" ?caps] h
  have "\<forall>pre post.
         generateManifest (\<lambda>name. []) (Some (pre @ ''{{CAPABILITIES}}'' @ post))
             (?config\<lparr>capabilities := None\<rparr>) ''x64'' ''10.0.17763.0''
           \<noteq> generateManifest (\<lambda>name. []) (Some (pre @ ''{{CAPABILITIES}}'' @ post))
               (?config\<lparr>capabilities := Some ?caps\<rparr>) ''x64'' ''10.0.17763.0''"
    by blast
  from this [THEN spec, THEN spec, of "''<Capabilities>''" "''</Capabilities>''"] h
  show ?thesis by simp
qed

end
